theory Spec2Isabelle
  imports Main
begin

section \<open>The build command of ConvPhase (setup.py, class BuildConvPhase)\<close>

text \<open>
  The command is glue code: it builds strings and paths, asks the operating system and the
  packaging library for facts, and launches external tools. The embedding keeps the
  string and path computations as executable functions, takes what the outside world
  answers as a record of oracles (\<open>env\<close>), and threads what the command changes (the
  process environment, the launched commands, the printed lines, the created
  directories) through a record \<open>world\<close>. A Python exception is a value \<open>Inl err\<close>.
\<close>

subsection \<open>Python strings\<close>

text \<open>
  A Python \<open>str\<close> is a list of characters; a character stands for its code point, so the
  texts of the model are those with code points below 256.
\<close>

text \<open>
  \<open>s.split(c)\<close> for a separator of one character. The result is never the empty list
  (\<open>py_split_not_Nil\<close> below), so the first branch of the \<open>case\<close> is never taken.
\<close>

fun py_split :: "char \<Rightarrow> string \<Rightarrow> string list" where
  "py_split c [] = [[]]"
| "py_split c (x # xs) =
     (if x = c then [] # py_split c xs
      else (case py_split c xs of [] \<Rightarrow> [[x]] | y # ys \<Rightarrow> (x # y) # ys))"

text \<open>\<open>sep.join(xs)\<close>\<close>

fun py_join :: "string \<Rightarrow> string list \<Rightarrow> string" where
  "py_join sep [] = []"
| "py_join sep [x] = x"
| "py_join sep (x # y # ys) = x @ sep @ py_join sep (y # ys)"

text \<open>\<open>c.isspace()\<close> on the code points below 256: TAB to CR, FS to US, space, NEL, NBSP.\<close>

definition isspace :: "char \<Rightarrow> bool" where
  "isspace c =
     (let n = (of_char c :: nat)
      in (9 \<le> n \<and> n \<le> 13) \<or> (28 \<le> n \<and> n \<le> 32) \<or> n = 133 \<or> n = 160)"

text \<open>\<open>s.strip()\<close>: white space removed at both ends.\<close>

definition strip :: "string \<Rightarrow> string" where
  "strip s = rev (dropWhile isspace (rev (dropWhile isspace s)))"

text \<open>\<open>s.startswith(p)\<close>\<close>

definition startswith :: "string \<Rightarrow> string \<Rightarrow> bool" where
  "startswith s p = (take (length p) s = p)"

subsection \<open>Paths (pathlib, POSIX flavour)\<close>

text \<open>
  A path is its root (\<open>''''\<close>, \<open>''/''\<close> or \<open>''//''\<close>) and its components. The functions
  follow \<open>pathlib.PurePosixPath\<close>: \<open>splitroot\<close> and the parsing of one string, the join of
  two parsed paths, \<open>__str__\<close>, \<open>joinpath\<close>, the operator \<open>/\<close> and \<open>absolute\<close>.
\<close>

datatype path = PosixPath (path_root: string) (path_parts: "string list")

definition splitroot :: "string \<Rightarrow> string \<times> string" where
  "splitroot part =
     (case part of
        [] \<Rightarrow> ([], part)
      | c # _ \<Rightarrow>
          if c = CHR ''/'' then
            (let stripped_part = dropWhile (\<lambda>x. x = CHR ''/'') part
             in if length part - length stripped_part = 2
                then (''//'', stripped_part) else (''/'', stripped_part))
          else ([], part))"

text \<open>\<open>Path(s)\<close>: empty components and \<open>.\<close> are dropped.\<close>

definition Path :: "string \<Rightarrow> path" where
  "Path s =
     (case splitroot s of
        (r, rel) \<Rightarrow>
          PosixPath r (filter (\<lambda>x. x \<noteq> [] \<and> x \<noteq> ''.'') (py_split CHR ''/'' rel)))"

text \<open>\<open>p / q\<close> for a path \<open>q\<close>: an absolute right operand replaces the left one.\<close>

definition joinp :: "path \<Rightarrow> path \<Rightarrow> path" where
  "joinp p q =
     (if path_root q \<noteq> [] then q
      else PosixPath (path_root p) (path_parts p @ path_parts q))"

text \<open>\<open>p / s\<close> for a string \<open>s\<close>, and \<open>p.joinpath(*ss)\<close>.\<close>

definition truediv :: "path \<Rightarrow> string \<Rightarrow> path" where
  "truediv p s = joinp p (Path s)"

definition joinpath :: "path \<Rightarrow> string list \<Rightarrow> path" where
  "joinpath p ss = foldl truediv p ss"

text \<open>\<open>str(p)\<close>: the path without root and components prints as \<open>.\<close>\<close>

definition str :: "path \<Rightarrow> string" where
  "str p =
     (let s = path_root p @ py_join ''/'' (path_parts p)
      in if s = [] then ''.'' else s)"

text \<open>\<open>os.path.basename\<close>: what follows the last separator.\<close>

definition basename :: "string \<Rightarrow> string" where
  "basename s = last (py_split CHR ''/'' s)"

subsection \<open>Exceptions, the world and its oracles\<close>

text \<open>
  The exceptions that can leave the command. \<open>Exception msg\<close> is the fatal error the
  command raises itself; the others come from the interpreter and the libraries.
\<close>

datatype error =
    Exception string
  | IndexError
  | TypeError
  | AttributeError
  | UnicodeDecodeError
  | OSError string
  | DistutilsPlatformError string

text \<open>
  The two functions of the module \<open>subprocess\<close> the command passes to its helper, the
  argument of the helper (a list, a string, or anything else), and what the call
  \<open>func(arg)\<close> does: it raises \<open>OSError\<close> (the executable could not be launched), it
  raises \<open>CalledProcessError\<close> (non-zero exit status), or it returns. For
  \<open>check_output\<close> the returned bytes are given by the text they decode to as UTF-8,
  \<open>None\<close> when they do not decode; for \<open>check_call\<close> the returned value is 0.
\<close>

datatype func = check_call | check_output

datatype arg = ArgList "string list" | ArgStr string | ArgOther

datatype outcome = RaisesOSError | RaisesCalledProcessError | Returns "string option"

datatype result = Status int | Text string

text \<open>
  What the command changes: \<open>os.environ\<close>, the calls \<open>func(arg)\<close> made so far (in
  order), the lines printed, and the directories \<open>mkdir\<close> was asked for.
\<close>

record world =
  environ :: "string \<rightharpoonup> string"
  calls :: "(func \<times> arg) list"
  stdout :: "string list"
  created :: "path list"

text \<open>
  What the outside answers: the outcome of launching a command (it may depend on the
  world in which the helper is entered), \<open>setuptools.msvc.msvc14_get_vc_env\<close>, the configuration
  variable \<open>EXT_SUFFIX\<close> of \<open>sysconfig\<close>, \<open>build_py.get_package_dir\<close>, the file system
  as \<open>Path.exists\<close>, \<open>Path.iterdir\<close> and \<open>Path.mkdir(parents=True, exist_ok=True)\<close>
  see it, and \<open>os.getcwd()\<close>.
\<close>

record env =
  exec :: "world \<Rightarrow> func \<Rightarrow> arg \<Rightarrow> outcome"
  msvc14_get_vc_env :: "string \<Rightarrow> error + (string \<rightharpoonup> string)"
  EXT_SUFFIX :: string
  get_package_dir :: "string \<Rightarrow> string"
  exists :: "path \<Rightarrow> bool"
  iterdir :: "path \<Rightarrow> error + path list"
  mkdir :: "path \<Rightarrow> error option"
  getcwd :: string

text \<open>\<open>p.absolute()\<close>: a relative path is joined to the working directory.\<close>

definition absolute :: "env \<Rightarrow> path \<Rightarrow> path" where
  "absolute e p = (if path_root p \<noteq> [] then p else joinp (Path (getcwd e)) p)"

subsection \<open>The command object\<close>

record build_conv_phase =
  name :: string
  hxcpp_includes :: "path list"
  python_includes :: "path list"
  python_libs :: "path list"
  build_lib :: "string option"
  plat_name :: "string option"
  windows :: bool
  inplace :: int

definition initialize_options :: build_conv_phase where
  "initialize_options =
     \<lparr> name = ''itaxotools.convphase.convphase'',
       hxcpp_includes = [],
       python_includes = [],
       python_libs = [],
       build_lib = None,
       plat_name = None,
       windows = False,
       inplace = 0 \<rparr>"

subsection \<open>subprocess\<close>

text \<open>The loggable command and the tool of an argument (lines 58 to 65).\<close>

definition command_and_tool :: "arg \<Rightarrow> error + (string \<times> string)" where
  "command_and_tool a =
     (case a of
        ArgList xs \<Rightarrow>
          (case xs of [] \<Rightarrow> Inl IndexError | t # _ \<Rightarrow> Inr (py_join '' '' xs, t))
      | ArgStr s \<Rightarrow>
          (case py_split CHR '' '' s of [] \<Rightarrow> Inl IndexError | t # _ \<Rightarrow> Inr (s, t))
      | ArgOther \<Rightarrow> Inl (Exception ''Bad subprocess arguments''))"

text \<open>\<open>missing or f'Couldn\'t find {tool}, is {tool} installed?'\<close>: an absent and an empty
  message are both false.\<close>

definition missing_or_default :: "string option \<Rightarrow> string \<Rightarrow> string" where
  "missing_or_default missing tool =
     (case missing of
        None \<Rightarrow> ''Couldn't find '' @ tool @ '', is '' @ tool @ '' installed?''
      | Some m \<Rightarrow>
          if m = [] then ''Couldn't find '' @ tool @ '', is '' @ tool @ '' installed?''
          else m)"

definition subprocess ::
  "env \<Rightarrow> func \<Rightarrow> arg \<Rightarrow> string \<Rightarrow> string option \<Rightarrow> world \<Rightarrow> (error + result) \<times> world" where
  "subprocess e f a err missing w =
     (case command_and_tool a of
        Inl x \<Rightarrow> (Inl x, w)
      | Inr (command, tool) \<Rightarrow>
          (let w1 = w\<lparr>stdout := stdout w @ [command]\<rparr>;
               w2 = w1\<lparr>calls := calls w1 @ [(f, a)]\<rparr>
           in case exec e w f a of
                RaisesOSError \<Rightarrow> (Inl (Exception (missing_or_default missing tool)), w2)
              | RaisesCalledProcessError \<Rightarrow> (Inl (Exception err), w2)
              | Returns out \<Rightarrow>
                  (case f of
                     check_call \<Rightarrow> (Inr (Status 0), w2)
                   | check_output \<Rightarrow>
                       (case out of
                          None \<Rightarrow> (Inl UnicodeDecodeError, w2)
                        | Some t \<Rightarrow> (Inr (Text t), w2\<lparr>stdout := stdout w2 @ [t]\<rparr>)))))"

subsection \<open>set_environ\<close>

definition set_environ ::
  "env \<Rightarrow> build_conv_phase \<Rightarrow> world \<Rightarrow> (error + build_conv_phase) \<times> world" where
  "set_environ e self w =
     (case plat_name self of
        None \<Rightarrow> (Inl AttributeError, w)
      | Some p \<Rightarrow>
          if startswith p ''win-'' then
            (let w1 = w\<lparr>stdout := stdout w @ [''Loading MSVC environment...'']\<rparr>;
                 p' = drop (length ''win-'') p
             in case msvc14_get_vc_env e p' of
                  Inl x \<Rightarrow> (Inl x, w1)
                | Inr vars \<Rightarrow>
                    (Inr (self\<lparr>windows := True\<rparr>), w1\<lparr>environ := environ w1 ++ vars\<rparr>))
          else (Inr self, w))"

subsection \<open>git submodules\<close>

text \<open>The loop of lines 96 to 99 over the lines of the status output.\<close>

fun no_line_marked :: "string list \<Rightarrow> bool" where
  "no_line_marked [] = True"
| "no_line_marked (submodule # submodules) =
     (if startswith (strip submodule) ''-'' then False else no_line_marked submodules)"

definition git_submodules_initialized :: "env \<Rightarrow> world \<Rightarrow> (error + bool) \<times> world" where
  "git_submodules_initialized e w =
     (case subprocess e check_output (ArgList [''git'', ''submodule'', ''status''])
             ''Couldn't check git submodule status'' None w of
        (Inl x, w1) \<Rightarrow> (Inl x, w1)
      | (Inr (Status n), w1) \<Rightarrow> (Inl AttributeError, w1)
      | (Inr (Text output), w1) \<Rightarrow>
          (Inr (no_line_marked (py_split CHR 0x0A output)), w1))"

definition update_git_submodules :: "env \<Rightarrow> world \<Rightarrow> (error + unit) \<times> world" where
  "update_git_submodules e w =
     (case git_submodules_initialized e w of
        (Inl x, w1) \<Rightarrow> (Inl x, w1)
      | (Inr initialized, w1) \<Rightarrow>
          if \<not> initialized then
            (case subprocess e check_call
                    (ArgList [''git'', ''submodule'', ''update'', ''--init'', ''--recursive''])
                    ''Couldn't initialize git submodules'' None w1 of
               (Inl x, w2) \<Rightarrow> (Inl x, w2)
             | (Inr r, w2) \<Rightarrow> (Inr (), w2))
          else (Inr (), w1))"

subsection \<open>find_hxcpp_includes\<close>

definition find_hxcpp_includes ::
  "env \<Rightarrow> build_conv_phase \<Rightarrow> world \<Rightarrow> (error + build_conv_phase) \<times> world" where
  "find_hxcpp_includes e self w =
     (case subprocess e check_output (ArgList [''haxelib'', ''libpath'', ''hxcpp''])
             ''Couldn't find hxcpp libpath, is hxcpp installed? (haxelib install hxcpp)''
             (Some ''Couldn't find haxelib, is haxe installed?'') w of
        (Inl x, w1) \<Rightarrow> (Inl x, w1)
      | (Inr (Status n), w1) \<Rightarrow> (Inl AttributeError, w1)
      | (Inr (Text output), w1) \<Rightarrow>
          (let hxcpp = strip output;
               p = truediv (Path hxcpp) ''include''
           in if \<not> exists e p then (Inl (Exception (''Bad hxcpp include: '' @ str p)), w1)
              else
                (case iterdir e p of
                   Inl x \<Rightarrow> (Inl x, w1)
                 | Inr entries \<Rightarrow>
                     if entries = [] then
                       (Inl (Exception (''Bad hxcpp include: '' @ str p)), w1)
                     else (Inr (self\<lparr>hxcpp_includes := hxcpp_includes self @ [p]\<rparr>), w1))))"

subsection \<open>The target path\<close>

definition get_target_filename :: "env \<Rightarrow> string \<Rightarrow> string" where
  "get_target_filename e n = n @ EXT_SUFFIX e"

definition get_target_path ::
  "env \<Rightarrow> build_conv_phase \<Rightarrow> world \<Rightarrow> (error + string) \<times> world" where
  "get_target_path e self w =
     (let parts = py_split CHR ''.'' (name self)
      in if parts = [] then (Inl IndexError, w)
         else
           (let filename = get_target_filename e (last parts)
            in case (if inplace self = 0 then
                       (case build_lib self of
                          None \<Rightarrow> Inl TypeError
                        | Some b \<Rightarrow>
                            (let build_path = Path b;
                                 module_path = joinpath (Path []) (butlast parts)
                             in Inr (joinp build_path module_path)))
                     else
                       (let package = py_join ''.'' (butlast parts);
                            package_dir = get_package_dir e package
                        in Inr (Path package_dir))) of
                 Inl x \<Rightarrow> (Inl x, w)
               | Inr package_path \<Rightarrow>
                   (case mkdir e package_path of
                      Some x \<Rightarrow> (Inl x, w)
                    | None \<Rightarrow>
                        (Inr (str (absolute e (truediv package_path filename))),
                         w\<lparr>created := created w @ [package_path]\<rparr>))))"

subsection \<open>premake and build\<close>

definition premake :: "env \<Rightarrow> build_conv_phase \<Rightarrow> world \<Rightarrow> (error + result) \<times> world" where
  "premake e self w =
     (case (if windows self then
              (let version = environ w ''VisualStudioVersion''
               in if version = Some ''16.0'' then Inr ''vs2019''
                  else if version = Some ''17.0'' then Inr ''vs2022''
                  else Inl (Exception ''Cannot determine Visual Studio version''))
            else Inr ''gmake2'') of
        Inl x \<Rightarrow> (Inl x, w)
      | Inr action \<Rightarrow>
          (let command0 = ''premake5 '' @ action;
               includes = python_includes self @ hxcpp_includes self;
               command1 =
                 (if includes \<noteq> [] then
                    command0 @ '' --includedirs='' @ [CHR 0x22]
                      @ py_join '';'' (map str includes) @ [CHR 0x22]
                  else command0);
               libs = python_libs self;
               command2 =
                 (if libs \<noteq> [] then
                    command1 @ '' --libdirs='' @ [CHR 0x22]
                      @ py_join '';'' (map str libs) @ [CHR 0x22]
                  else command1)
           in case get_target_path e self w of
                (Inl x, w1) \<Rightarrow> (Inl x, w1)
              | (Inr target, w1) \<Rightarrow>
                  subprocess e check_call
                    (ArgStr (command2 @ '' --target='' @ [CHR 0x22] @ target @ [CHR 0x22]))
                    (''premake failed for action: '' @ action) None w1))"

definition build :: "env \<Rightarrow> build_conv_phase \<Rightarrow> world \<Rightarrow> (error + result) \<times> world" where
  "build e self w =
     (let tool = (if windows self then ''msbuild'' else ''make'');
          command = (if windows self then tool @ '' /p:Configuration=Release'' else tool)
      in subprocess e check_call (ArgStr command)
           (''Building with '' @ tool @ '' failed!'')
           (Some (''Couldn't find build tool: '' @ tool)) w)"

subsection \<open>run\<close>

definition run :: "env \<Rightarrow> build_conv_phase \<Rightarrow> world \<Rightarrow> (error + build_conv_phase) \<times> world" where
  "run e self w =
     (case update_git_submodules e w of
        (Inl x, w1) \<Rightarrow> (Inl x, w1)
      | (Inr u, w1) \<Rightarrow>
          (case set_environ e self w1 of
             (Inl x, w2) \<Rightarrow> (Inl x, w2)
           | (Inr self2, w2) \<Rightarrow>
               (case premake e self2 w2 of
                  (Inl x, w3) \<Rightarrow> (Inl x, w3)
                | (Inr r, w3) \<Rightarrow>
                    (case build e self2 w3 of
                       (Inl x, w4) \<Rightarrow> (Inl x, w4)
                     | (Inr r', w4) \<Rightarrow> (Inr self2, w4)))))"

subsection \<open>The parts of premake\<close>

text \<open>
  The three pieces of \<open>premake\<close> before the target path, under names of their own: the
  choice of the action (lines 160 to 169) and the two optional flags (lines 175 to 185).
  Lemma \<open>premake_unfold\<close> below shows that \<open>premake\<close> is composed of them.
\<close>

definition select_action :: "build_conv_phase \<Rightarrow> world \<Rightarrow> error + string" where
  "select_action self w =
     (if windows self then
        (let version = environ w ''VisualStudioVersion''
         in if version = Some ''16.0'' then Inr ''vs2019''
            else if version = Some ''17.0'' then Inr ''vs2022''
            else Inl (Exception ''Cannot determine Visual Studio version''))
      else Inr ''gmake2'')"

definition includedirs_flag :: "build_conv_phase \<Rightarrow> string" where
  "includedirs_flag self =
     (if python_includes self @ hxcpp_includes self \<noteq> [] then
        '' --includedirs='' @ [CHR 0x22]
          @ py_join '';'' (map str (python_includes self @ hxcpp_includes self)) @ [CHR 0x22]
      else [])"

definition libdirs_flag :: "build_conv_phase \<Rightarrow> string" where
  "libdirs_flag self =
     (if python_libs self \<noteq> [] then
        '' --libdirs='' @ [CHR 0x22] @ py_join '';'' (map str (python_libs self)) @ [CHR 0x22]
      else [])"

subsection \<open>A sample environment and world\<close>

text \<open>
  A Linux checkout with everything installed, for the concrete instances below; the
  outcome of launching a command is left as a parameter.
\<close>

definition sample_env :: "(world \<Rightarrow> func \<Rightarrow> arg \<Rightarrow> outcome) \<Rightarrow> env" where
  "sample_env x =
     \<lparr> exec = x,
       msvc14_get_vc_env = (\<lambda>p. Inr [''VisualStudioVersion'' \<mapsto> ''16.0'']),
       EXT_SUFFIX = ''.cpython-310-x86_64-linux-gnu.so'',
       get_package_dir = (\<lambda>p. ''src/itaxotools/convphase''),
       exists = (\<lambda>p. True),
       iterdir = (\<lambda>p. Inr [truediv p ''hxcpp.h'']),
       mkdir = (\<lambda>p. None),
       getcwd = ''/home/user/ConvPhase'' \<rparr>"

definition sample_world :: world where
  "sample_world = \<lparr> environ = Map.empty, calls = [], stdout = [], created = [] \<rparr>"

section \<open>Properties\<close>

subsection \<open>Strings and the helper\<close>

lemma py_split_not_Nil: "py_split c s \<noteq> []"
  by (induction s) (auto split: list.splits)

lemma command_and_tool_list:
  "command_and_tool (ArgList (t # ts)) = Inr (py_join '' '' (t # ts), t)"
  by (simp add: command_and_tool_def)

lemma command_and_tool_str:
  "command_and_tool (ArgStr s) = Inr (s, hd (py_split CHR '' '' s))"
  using py_split_not_Nil [of "CHR '' ''" s]
  by (cases "py_split CHR '' '' s") (simp_all add: command_and_tool_def)

text \<open>The helper, once its argument is a command: one call, then the three outcomes.\<close>

lemma subprocess_eq:
  assumes "command_and_tool a = Inr (command, tool)"
  shows "subprocess e f a err missing w =
     (case exec e w f a of
        RaisesOSError \<Rightarrow>
          (Inl (Exception (missing_or_default missing tool)),
           w\<lparr>stdout := stdout w @ [command], calls := calls w @ [(f, a)]\<rparr>)
      | RaisesCalledProcessError \<Rightarrow>
          (Inl (Exception err), w\<lparr>stdout := stdout w @ [command], calls := calls w @ [(f, a)]\<rparr>)
      | Returns out \<Rightarrow>
          (case f of
             check_call \<Rightarrow>
               (Inr (Status 0), w\<lparr>stdout := stdout w @ [command], calls := calls w @ [(f, a)]\<rparr>)
           | check_output \<Rightarrow>
               (case out of
                  None \<Rightarrow>
                    (Inl UnicodeDecodeError,
                     w\<lparr>stdout := stdout w @ [command], calls := calls w @ [(f, a)]\<rparr>)
                | Some t \<Rightarrow>
                    (Inr (Text t),
                     w\<lparr>stdout := stdout w @ [command, t], calls := calls w @ [(f, a)]\<rparr>))))"
  using assms
  by (simp add: subprocess_def Let_def split: outcome.splits func.splits option.splits)

lemma calls_subprocess:
  assumes "command_and_tool a = Inr ct"
  shows "calls (snd (subprocess e f a err missing w)) = calls w @ [(f, a)]"
proof -
  obtain command tool where "command_and_tool a = Inr (command, tool)"
    using assms by (cases ct) simp
  from subprocess_eq [OF this] show ?thesis
    by (simp split: outcome.splits func.splits option.splits)
qed

subsection \<open>Splitting and joining\<close>

lemma py_split_no_sep: "c \<notin> set s \<Longrightarrow> py_split c s = [s]"
  by (induction s) auto

lemma py_split_parts_no_sep: "x \<in> set (py_split c s) \<Longrightarrow> c \<notin> set x"
  by (induction s arbitrary: x) (auto split: if_splits list.splits)

lemma py_split_concat_subset: "set (concat (py_split c s)) \<subseteq> set s"
  by (induction s) (fastforce split: if_splits list.splits)+

lemma py_split_parts_subset: "x \<in> set (py_split c s) \<Longrightarrow> set x \<subseteq> set s"
  using py_split_concat_subset [of c s] by auto

lemma last_py_split_Cons:
  "last (py_split c (x # xs)) =
     (if x = c then last (py_split c xs)
      else if c \<in> set xs then last (py_split c xs) else x # xs)"
proof (cases "c \<in> set xs")
  case False
  then show ?thesis by (simp add: py_split_no_sep py_split_not_Nil)
next
  case True
  then have "tl (py_split c xs) \<noteq> []"
    by (induction xs) (auto split: list.splits simp: py_split_not_Nil)
  then show ?thesis
    using True py_split_not_Nil [of c xs]
    by (cases "py_split c xs") (auto)
qed

lemma last_py_split_append:
  "c \<notin> set ys \<Longrightarrow> last (py_split c (xs @ ys)) = last (py_split c xs) @ ys"
proof (induction xs)
  case Nil
  then show ?case by (simp add: py_split_no_sep)
next
  case (Cons x xs)
  then show ?case
    by (simp only: append_Cons last_py_split_Cons) (auto simp: py_split_no_sep)
qed

lemma last_py_split_sep: "last (py_split c (xs @ [c])) = []"
  by (induction xs) (simp_all only: append_Cons append_Nil last_py_split_Cons, auto)

lemma py_join_snoc: "xs \<noteq> [] \<Longrightarrow> py_join sep (xs @ [x]) = py_join sep xs @ sep @ x"
  by (induction sep xs rule: py_join.induct) auto

subsection \<open>The target path\<close>

lemma splitroot_no_slash: "CHR ''/'' \<notin> set s \<Longrightarrow> splitroot s = ([], s)"
  by (cases s) (auto simp: splitroot_def)

lemma Path_segment:
  assumes "CHR ''/'' \<notin> set s" and "s \<noteq> ''.''"
  shows "Path s = PosixPath [] (if s = [] then [] else [s])"
  using assms by (simp add: Path_def splitroot_no_slash py_split_no_sep)

lemma path_root_Path: "path_root (Path s) \<in> {[], ''/'', ''//''}"
  by (cases s) (auto simp: Path_def splitroot_def Let_def)

lemma path_root_joinp:
  "path_root p \<in> {[], ''/'', ''//''} \<Longrightarrow> path_root q \<in> {[], ''/'', ''//''} \<Longrightarrow>
   path_root (joinp p q) \<in> {[], ''/'', ''//''}"
  by (auto simp: joinp_def)

lemma path_root_joinpath:
  "path_root p \<in> {[], ''/'', ''//''} \<Longrightarrow> path_root (joinpath p ss) \<in> {[], ''/'', ''//''}"
  unfolding joinpath_def
proof (induction ss arbitrary: p)
  case Nil
  then show ?case by simp
next
  case (Cons s ss)
  have "path_root (truediv p s) \<in> {[], ''/'', ''//''}"
    unfolding truediv_def by (rule path_root_joinp [OF Cons.prems path_root_Path])
  from Cons.IH [OF this] show ?case by simp
qed

lemma path_root_absolute:
  "path_root p \<in> {[], ''/'', ''//''} \<Longrightarrow> path_root (absolute e p) \<in> {[], ''/'', ''//''}"
proof (cases "path_root p = []")
  case True
  assume "path_root p \<in> {[], ''/'', ''//''}"
  from path_root_joinp [OF path_root_Path this, of "getcwd e"] True show ?thesis
    by (simp add: absolute_def)
next
  case False
  assume "path_root p \<in> {[], ''/'', ''//''}"
  with False show ?thesis
    by (simp add: absolute_def)
qed


lemma basename_str:
  assumes "path_root q \<in> {[], ''/'', ''//''}" and "path_parts q = ps @ [fn]"
    and "CHR ''/'' \<notin> set fn" and "fn \<noteq> []"
  shows "basename (str q) = fn"
proof (cases "ps = []")
  case True
  then have "str q = path_root q @ fn"
    using assms by (simp add: str_def)
  moreover have "last (py_split CHR ''/'' (path_root q)) = []"
    using assms(1) by auto
  ultimately show ?thesis
    using assms(3) by (simp add: basename_def last_py_split_append)
next
  case False
  let ?pre = "(path_root q @ py_join ''/'' ps) @ [CHR ''/'']"
  have "str q = ?pre @ fn"
    using False assms by (simp add: str_def py_join_snoc)
  then have "basename (str q) = last (py_split CHR ''/'' ?pre) @ fn"
    unfolding basename_def by (simp only: last_py_split_append [OF assms(3)])
  also have "last (py_split CHR ''/'' ?pre) = []"
    by (rule last_py_split_sep)
  finally show ?thesis by simp
qed

lemma absolute_truediv_parts:
  assumes "Path fn = PosixPath [] [fn]"
  shows "\<exists>ps. path_parts (absolute e (truediv pkg fn)) = ps @ [fn]"
  using assms by (auto simp: absolute_def truediv_def joinp_def)

text \<open>What \<open>get_target_path\<close> returns, when it returns.\<close>

lemma get_target_path_Inr:
  assumes "get_target_path e self w = (Inr p, w')"
  shows "\<exists>pkg. path_root pkg \<in> {[], ''/'', ''//''} \<and>
           p = str (absolute e (truediv pkg
                 (last (py_split CHR ''.'' (name self)) @ EXT_SUFFIX e)))"
proof (cases "inplace self = 0")
  case True
  then obtain b where b: "build_lib self = Some b"
    using assms by (cases "build_lib self") (simp_all add: get_target_path_def Let_def py_split_not_Nil)
  let ?pkg = "joinp (Path b) (joinpath (Path []) (butlast (py_split CHR ''.'' (name self))))"
  have "path_root ?pkg \<in> {[], ''/'', ''//''}"
    by (intro path_root_joinp path_root_joinpath path_root_Path)
  moreover have "p = str (absolute e (truediv ?pkg
                 (last (py_split CHR ''.'' (name self)) @ EXT_SUFFIX e)))"
    using assms True b
    by (auto simp: get_target_path_def Let_def py_split_not_Nil get_target_filename_def
        split: option.splits)
  ultimately show ?thesis by blast
next
  case False
  let ?pkg = "Path (get_package_dir e (py_join ''.'' (butlast (py_split CHR ''.'' (name self)))))"
  have "p = str (absolute e (truediv ?pkg
                 (last (py_split CHR ''.'' (name self)) @ EXT_SUFFIX e)))"
    using assms False
    by (auto simp: get_target_path_def Let_def py_split_not_Nil get_target_filename_def
        split: option.splits)
  then show ?thesis
    using path_root_Path by blast
qed

lemma leaf_no_sep:
  "CHR ''.'' \<notin> set (last (py_split CHR ''.'' s))"
  "CHR ''/'' \<notin> set s \<Longrightarrow> CHR ''/'' \<notin> set (last (py_split CHR ''.'' s))"
  using py_split_parts_no_sep [of "last (py_split CHR ''.'' s)" "CHR ''.''" s]
    py_split_parts_subset [of "last (py_split CHR ''.'' s)" "CHR ''.''" s]
    py_split_not_Nil [of "CHR ''.''" s]
  by auto

lemma filename_component:
  assumes "CHR ''/'' \<notin> set s" and "CHR ''/'' \<notin> set suffix"
    and "suffix \<noteq> []" and "suffix \<noteq> ''.''"
  shows "Path (last (py_split CHR ''.'' s) @ suffix) =
           PosixPath [] [last (py_split CHR ''.'' s) @ suffix]"
proof -
  let ?leaf = "last (py_split CHR ''.'' s)"
  have "?leaf @ suffix \<noteq> ''.''"
  proof
    assume eq: "?leaf @ suffix = ''.''"
    show False
    proof (cases ?leaf)
      case Nil
      then show False using eq assms(4) by simp
    next
      case (Cons c cs)
      then have "c = CHR ''.''" using eq by simp
      then show False using leaf_no_sep(1) [of s] Cons by simp
    qed
  qed
  moreover have "CHR ''/'' \<notin> set (?leaf @ suffix)"
    using leaf_no_sep(2) [OF assms(1)] assms(2) by simp
  ultimately show ?thesis
    using assms(3) by (simp add: Path_segment)
qed

text \<open>The sample environment on the default name, in both modes.\<close>

lemma sample_target_path_build:
  "get_target_path (sample_env x) (initialize_options\<lparr>build_lib := Some ''build/lib''\<rparr>)
       sample_world =
     (Inr ''/home/user/ConvPhase/build/lib/itaxotools/convphase/convphase.cpython-310-x86_64-linux-gnu.so'',
      sample_world\<lparr>created := [PosixPath [] [''build'', ''lib'', ''itaxotools'', ''convphase'']]\<rparr>)"
  by (simp add: get_target_path_def Let_def get_target_filename_def Path_def splitroot_def
      joinp_def joinpath_def truediv_def str_def absolute_def sample_env_def sample_world_def
      initialize_options_def)

lemma sample_target_path_inplace:
  "get_target_path (sample_env x) (initialize_options\<lparr>inplace := 1\<rparr>) sample_world =
     (Inr ''/home/user/ConvPhase/src/itaxotools/convphase/convphase.cpython-310-x86_64-linux-gnu.so'',
      sample_world\<lparr>created := [PosixPath [] [''src'', ''itaxotools'', ''convphase'']]\<rparr>)"
  by (simp add: get_target_path_def Let_def get_target_filename_def Path_def splitroot_def
      joinp_def joinpath_def truediv_def str_def absolute_def sample_env_def sample_world_def
      initialize_options_def)

lemma sample_suffix:
  "CHR ''/'' \<notin> set (EXT_SUFFIX (sample_env x))" "EXT_SUFFIX (sample_env x) \<noteq> []"
  "EXT_SUFFIX (sample_env x) \<noteq> ''.''"
  "EXT_SUFFIX (sample_env x) = ''.cpython-310-x86_64-linux-gnu.so''"
  by (simp_all add: sample_env_def)

lemma sample_name:
  "CHR ''/'' \<notin> set (name (initialize_options\<lparr>build_lib := b\<rparr>))"
  "CHR ''/'' \<notin> set (name (initialize_options\<lparr>inplace := i\<rparr>))"
  "last (py_split CHR ''.'' (name initialize_options)) = ''convphase''"
  "butlast (py_split CHR ''.'' (name initialize_options)) = [''itaxotools'', ''convphase'']"
  by (simp_all add: initialize_options_def)

text \<open>
  C1. \<open>get_target_filename\<close> returns its argument followed by \<open>EXT_SUFFIX\<close>. In both
  build modes, the file name (the last component) of the path \<open>get_target_path\<close>
  returns is the last dotted segment of the target name followed by \<open>EXT_SUFFIX\<close>, for a
  target name and a suffix without \<open>/\<close> and a suffix that is neither empty nor a single
  dot.
\<close>

theorem target_filename:
  assumes "get_target_path e self w = (Inr p, w')"
    and "CHR ''/'' \<notin> set (name self)" and "CHR ''/'' \<notin> set (EXT_SUFFIX e)"
    and "EXT_SUFFIX e \<noteq> []" and "EXT_SUFFIX e \<noteq> ''.''"
  shows "get_target_filename e n = n @ EXT_SUFFIX e \<and>
         basename p = last (py_split CHR ''.'' (name self)) @ EXT_SUFFIX e"
proof -
  let ?fn = "last (py_split CHR ''.'' (name self)) @ EXT_SUFFIX e"
  obtain pkg where pkg: "path_root pkg \<in> {[], ''/'', ''//''}"
    and p: "p = str (absolute e (truediv pkg ?fn))"
    using get_target_path_Inr [OF assms(1)] by blast
  have fn: "Path ?fn = PosixPath [] [?fn]"
    by (rule filename_component [OF assms(2-5)])
  obtain ps where ps: "path_parts (absolute e (truediv pkg ?fn)) = ps @ [?fn]"
    using absolute_truediv_parts [OF fn] by blast
  have "path_root (truediv pkg ?fn) \<in> {[], ''/'', ''//''}"
    unfolding truediv_def by (rule path_root_joinp [OF pkg path_root_Path])
  then have root: "path_root (absolute e (truediv pkg ?fn)) \<in> {[], ''/'', ''//''}"
    by (rule path_root_absolute)
  have "CHR ''/'' \<notin> set ?fn"
    using leaf_no_sep(2) [OF assms(2)] assms(3) by simp
  moreover have "?fn \<noteq> []"
    using assms(4) by simp
  ultimately have "basename p = ?fn"
    unfolding p by (intro basename_str [OF root ps])
  then show ?thesis
    by (simp add: get_target_filename_def)
qed

theorem target_filename_witness:
  "basename ''/home/user/ConvPhase/build/lib/itaxotools/convphase/convphase.cpython-310-x86_64-linux-gnu.so'' =
     ''convphase.cpython-310-x86_64-linux-gnu.so'' \<and>
   basename ''/home/user/ConvPhase/src/itaxotools/convphase/convphase.cpython-310-x86_64-linux-gnu.so'' =
     ''convphase.cpython-310-x86_64-linux-gnu.so'' \<and>
   fst (get_target_path (sample_env (\<lambda>w f a. Returns None))
          (initialize_options\<lparr>build_lib := Some ''build/lib''\<rparr>) sample_world) =
     Inr ''/home/user/ConvPhase/build/lib/itaxotools/convphase/convphase.cpython-310-x86_64-linux-gnu.so'' \<and>
   fst (get_target_path (sample_env (\<lambda>w f a. Returns None))
          (initialize_options\<lparr>inplace := 1\<rparr>) sample_world) =
     Inr ''/home/user/ConvPhase/src/itaxotools/convphase/convphase.cpython-310-x86_64-linux-gnu.so''"
  using
    target_filename [OF sample_target_path_build sample_name(1) sample_suffix(1-3),
      of "\<lambda>w f a. Returns None" "[]"]
    target_filename [OF sample_target_path_inplace sample_name(2) sample_suffix(1-3),
      of "\<lambda>w f a. Returns None" "[]"]
  by (simp add: sample_name sample_suffix sample_target_path_build sample_target_path_inplace)



subsection \<open>set_environ\<close>

text \<open>
  C3. When the platform name starts with \<open>win-\<close>, \<open>set_environ\<close> asks the MSVC resolver
  for the name without these four characters, merges the variables it returns into
  \<open>os.environ\<close> (the resolved values win over the old ones) and sets the flag
  \<open>windows\<close>; besides that it prints one line.
\<close>

theorem set_environ_windows:
  assumes "plat_name self = Some p" and "startswith p ''win-''"
    and "msvc14_get_vc_env e (drop 4 p) = Inr vars"
  shows "p = ''win-'' @ drop 4 p \<and>
    set_environ e self w =
      (Inr (self\<lparr>windows := True\<rparr>),
       w\<lparr>stdout := stdout w @ [''Loading MSVC environment...''],
         environ := environ w ++ vars\<rparr>)"
proof -
  have "take 4 p = ''win-''"
    using assms(2) by (simp add: startswith_def eval_nat_numeral)
  then have "p = ''win-'' @ drop 4 p"
    by (metis append_take_drop_id)
  moreover have "set_environ e self w =
      (Inr (self\<lparr>windows := True\<rparr>),
       w\<lparr>stdout := stdout w @ [''Loading MSVC environment...''],
         environ := environ w ++ vars\<rparr>)"
    using assms by (simp add: set_environ_def Let_def eval_nat_numeral)
  ultimately show ?thesis by simp
qed

theorem set_environ_windows_witness:
  "set_environ
     ((sample_env (\<lambda>w f a. RaisesOSError))
        \<lparr>msvc14_get_vc_env :=
           (\<lambda>p. if p = ''amd64'' then Inr [''VisualStudioVersion'' \<mapsto> ''17.0'']
                else Inl (DistutilsPlatformError p))\<rparr>)
     (initialize_options\<lparr>plat_name := Some ''win-amd64''\<rparr>)
     (sample_world\<lparr>environ := [''VisualStudioVersion'' \<mapsto> ''16.0'', ''PATH'' \<mapsto> ''/bin'']\<rparr>) =
   (Inr (initialize_options\<lparr>plat_name := Some ''win-amd64'', windows := True\<rparr>),
    sample_world
      \<lparr>stdout := [''Loading MSVC environment...''],
        environ := [''VisualStudioVersion'' \<mapsto> ''17.0'', ''PATH'' \<mapsto> ''/bin'']\<rparr>)"
  using set_environ_windows
    [of "initialize_options\<lparr>plat_name := Some ''win-amd64''\<rparr>" "''win-amd64''"
        "(sample_env (\<lambda>w f a. RaisesOSError))
           \<lparr>msvc14_get_vc_env :=
              (\<lambda>p. if p = ''amd64'' then Inr [''VisualStudioVersion'' \<mapsto> ''17.0'']
                   else Inl (DistutilsPlatformError p))\<rparr>"
        "[''VisualStudioVersion'' \<mapsto> ''17.0'']"
        "sample_world\<lparr>environ := [''VisualStudioVersion'' \<mapsto> ''16.0'', ''PATH'' \<mapsto> ''/bin'']\<rparr>"]
  by (simp add: startswith_def sample_env_def sample_world_def initialize_options_def
        fun_eq_iff map_add_def)

text \<open>
  C10. When the platform name does not start with \<open>win-\<close>, \<open>set_environ\<close> returns the
  command and the world as they were: \<open>os.environ\<close> and the flag \<open>windows\<close> (false after
  \<open>initialize_options\<close>) are untouched. And whenever \<open>set_environ\<close> changes
  \<open>os.environ\<close>, the platform name starts with \<open>win-\<close>.
\<close>

theorem set_environ_other_platform:
  "(plat_name self = Some p \<and> \<not> startswith p ''win-'' \<longrightarrow>
      set_environ e self w = (Inr self, w)) \<and>
   (environ (snd (set_environ e self w)) \<noteq> environ w \<longrightarrow>
      (\<exists>q. plat_name self = Some q \<and> startswith q ''win-''))"
  by (cases "plat_name self") (auto simp: set_environ_def Let_def split: sum.splits)

theorem set_environ_other_platform_witness:
  "set_environ (sample_env (\<lambda>w f a. RaisesOSError))
     (initialize_options\<lparr>plat_name := Some ''linux-x86_64''\<rparr>) sample_world =
   (Inr (initialize_options\<lparr>plat_name := Some ''linux-x86_64''\<rparr>), sample_world) \<and>
   \<not> windows (initialize_options\<lparr>plat_name := Some ''linux-x86_64''\<rparr>) \<and>
   environ (snd (set_environ (sample_env (\<lambda>w f a. RaisesOSError))
     (initialize_options\<lparr>plat_name := Some ''win-amd64''\<rparr>) sample_world)) \<noteq>
     environ sample_world \<and>
   startswith ''win-amd64'' ''win-''"
proof -
  let ?e = "sample_env (\<lambda>w f a. RaisesOSError)"
  let ?linux = "initialize_options\<lparr>plat_name := Some ''linux-x86_64''\<rparr>"
  let ?win = "initialize_options\<lparr>plat_name := Some ''win-amd64''\<rparr>"
  have "plat_name ?linux = Some ''linux-x86_64'' \<and> \<not> startswith ''linux-x86_64'' ''win-''"
    by (simp add: startswith_def)
  with set_environ_other_platform [of ?linux "''linux-x86_64''" ?e sample_world]
  have a: "set_environ ?e ?linux sample_world = (Inr ?linux, sample_world)"
    by blast
  have "environ (snd (set_environ ?e ?win sample_world)) ''VisualStudioVersion'' = Some ''16.0''"
    by (simp add: set_environ_def Let_def startswith_def sample_env_def)
  moreover have "environ sample_world ''VisualStudioVersion'' = None"
    by (simp add: sample_world_def)
  ultimately have b: "environ (snd (set_environ ?e ?win sample_world)) \<noteq> environ sample_world"
    by (metis option.distinct(1))
  with set_environ_other_platform [of ?win "''win-amd64''" ?e sample_world]
  have "\<exists>q. plat_name ?win = Some q \<and> startswith q ''win-''"
    by blast
  then have c: "startswith ''win-amd64'' ''win-''"
    by simp
  show ?thesis
    using a b c by (simp add: initialize_options_def)
qed

subsection \<open>build\<close>

text \<open>
  C7. \<open>build\<close> makes exactly one call, \<open>check_call\<close> on the command string
  \<open>msbuild /p:Configuration=Release\<close> when the flag \<open>windows\<close> is set and on \<open>make\<close>
  otherwise. When the tool cannot be launched the error is
  \<open>Couldn't find build tool: <tool>\<close>, when it exits with a non-zero status the error is
  \<open>Building with <tool> failed!\<close>, and otherwise \<open>build\<close> returns.
\<close>

theorem build_command:
  "calls (snd (build e self w)) =
     calls w @ [(check_call,
       ArgStr (if windows self then ''msbuild /p:Configuration=Release'' else ''make''))] \<and>
   fst (build e self w) =
     (case exec e w check_call
             (ArgStr (if windows self then ''msbuild /p:Configuration=Release'' else ''make'')) of
        RaisesOSError \<Rightarrow>
          Inl (Exception (if windows self then ''Couldn't find build tool: msbuild''
                          else ''Couldn't find build tool: make''))
      | RaisesCalledProcessError \<Rightarrow>
          Inl (Exception (if windows self then ''Building with msbuild failed!''
                          else ''Building with make failed!''))
      | Returns out \<Rightarrow> Inr (Status 0))"
proof (cases "windows self")
  case True
  then show ?thesis
    by (simp add: build_def Let_def subprocess_eq [OF command_and_tool_str]
        missing_or_default_def split: outcome.splits)
next
  case False
  then show ?thesis
    by (simp add: build_def Let_def subprocess_eq [OF command_and_tool_str]
        missing_or_default_def split: outcome.splits)
qed

subsection \<open>subprocess\<close>

text \<open>
  C9. A call through the helper on a command (a non-empty list, whose tool is its first
  element, or a string, whose tool is what precedes its first space) is made exactly
  once, whatever its outcome: nothing is retried. When the executable cannot be launched,
  the error carries the caller's \<open>missing\<close> message if one was given and is not empty,
  and otherwise the default \<open>Couldn't find <tool>, is <tool> installed?\<close>. When the
  executable exits with a non-zero status, the error carries the caller's error message.
\<close>

theorem subprocess_failures:
  assumes "a = ArgList (tool # rest) \<or> (a = ArgStr s \<and> tool = hd (py_split CHR '' '' s))"
  shows "calls (snd (subprocess e f a err missing w)) = calls w @ [(f, a)] \<and>
    (exec e w f a = RaisesOSError \<longrightarrow>
       fst (subprocess e f a err missing w) =
         Inl (Exception
           (case missing of
              None \<Rightarrow> ''Couldn't find '' @ tool @ '', is '' @ tool @ '' installed?''
            | Some m \<Rightarrow>
                if m = [] then ''Couldn't find '' @ tool @ '', is '' @ tool @ '' installed?''
                else m))) \<and>
    (exec e w f a = RaisesCalledProcessError \<longrightarrow>
       fst (subprocess e f a err missing w) = Inl (Exception err))"
proof -
  obtain command where ct: "command_and_tool a = Inr (command, tool)"
    using assms command_and_tool_list command_and_tool_str by blast
  show ?thesis
    by (simp add: subprocess_eq [OF ct] missing_or_default_def
        split: outcome.splits func.splits option.splits)
qed

theorem subprocess_failures_witness:
  "fst (subprocess (sample_env (\<lambda>w f a. RaisesOSError)) check_call
          (ArgStr ''make'') ''Building with make failed!'' (Some ''Couldn't find build tool: make'')
          sample_world) = Inl (Exception ''Couldn't find build tool: make'') \<and>
   fst (subprocess (sample_env (\<lambda>w f a. RaisesOSError)) check_call
          (ArgStr ''make'') ''Building with make failed!'' (Some [])
          sample_world) = Inl (Exception ''Couldn't find make, is make installed?'')"
  using subprocess_failures
      [of "ArgStr ''make''" "''make''" "[]" "''make''" "sample_env (\<lambda>w f a. RaisesOSError)"
          check_call "''Building with make failed!''" "Some ''Couldn't find build tool: make''"
          sample_world]
    subprocess_failures
      [of "ArgStr ''make''" "''make''" "[]" "''make''" "sample_env (\<lambda>w f a. RaisesOSError)"
          check_call "''Building with make failed!''" "Some []" sample_world]
  by (simp add: sample_env_def)

text \<open>
  The default message is not \<open>couldn't find <tool>, is it installed?\<close>, with or without
  the capital: for \<open>git\<close> it reads \<open>Couldn't find git, is git installed?\<close>.
\<close>

theorem subprocess_default_message_counterexample:
  "fst (subprocess (sample_env (\<lambda>w f a. RaisesOSError)) check_output
          (ArgList [''git'', ''submodule'', ''status''])
          ''Couldn't check git submodule status'' None sample_world) =
     Inl (Exception ''Couldn't find git, is git installed?'') \<and>
   fst (subprocess (sample_env (\<lambda>w f a. RaisesOSError)) check_output
          (ArgList [''git'', ''submodule'', ''status''])
          ''Couldn't check git submodule status'' None sample_world) \<noteq>
     Inl (Exception ''couldn't find git, is it installed?'') \<and>
   fst (subprocess (sample_env (\<lambda>w f a. RaisesOSError)) check_output
          (ArgList [''git'', ''submodule'', ''status''])
          ''Couldn't check git submodule status'' None sample_world) \<noteq>
     Inl (Exception ''Couldn't find git, is it installed?'')"
  by (simp add: subprocess_eq [OF command_and_tool_list] missing_or_default_def sample_env_def)

subsection \<open>git submodules\<close>

lemma startswith_strip:
  assumes "startswith l ''-''"
  shows "startswith (strip l) ''-''"
proof -
  obtain rest where l: "l = CHR ''-'' # rest"
    using assms by (cases l) (simp_all add: startswith_def)
  have ns: "\<not> isspace CHR ''-''"
    by (simp add: isspace_def)
  have "\<exists>zs. dropWhile isspace (rev rest @ [CHR ''-'']) = zs @ [CHR ''-'']"
    using ns by (simp add: dropWhile_append)
  then obtain zs where "dropWhile isspace (rev rest @ [CHR ''-'']) = zs @ [CHR ''-'']"
    by blast
  then have "strip l = CHR ''-'' # rev zs"
    using ns by (simp add: strip_def l)
  then show ?thesis
    by (simp add: startswith_def)
qed

lemma no_line_marked_iff:
  "no_line_marked ls = (\<not> list_ex (\<lambda>l. startswith (strip l) ''-'') ls)"
  by (induction ls) simp_all

lemma status_command:
  "command_and_tool (ArgList [''git'', ''submodule'', ''status'']) =
     Inr (''git submodule status'', ''git'')"
  by (simp add: command_and_tool_def)

lemma update_command:
  "command_and_tool (ArgList [''git'', ''submodule'', ''update'', ''--init'', ''--recursive'']) =
     Inr (''git submodule update --init --recursive'', ''git'')"
  by (simp add: command_and_tool_def)

lemma git_submodules_initialized_eq:
  assumes "exec e w check_output (ArgList [''git'', ''submodule'', ''status'']) =
             Returns (Some output)"
  shows "git_submodules_initialized e w =
     (Inr (\<not> list_ex (\<lambda>l. startswith (strip l) ''-'') (py_split CHR 0x0A output)),
      w\<lparr>stdout := stdout w @ [''git submodule status'', output],
        calls := calls w @ [(check_output, ArgList [''git'', ''submodule'', ''status''])]\<rparr>)"
  using assms
  by (simp add: git_submodules_initialized_def subprocess_eq [OF status_command]
      no_line_marked_iff)

text \<open>
  C4. Given the status listing: \<open>git_submodules_initialized\<close> returns false exactly when
  some line, with the white space at its ends removed, starts with \<open>-\<close>. So when some
  line starts with \<open>-\<close>, it returns false and \<open>update_git_submodules\<close> makes the update
  call exactly once, after the status call; when no line starts with \<open>-\<close> once
  stripped, it returns true and the update call is not made; and a line that starts with
  \<open>-\<close> only after stripping triggers the update as well.
\<close>

theorem update_git_submodules_marked:
  assumes "exec e w check_output (ArgList [''git'', ''submodule'', ''status'']) =
             Returns (Some listing)"
  shows "fst (git_submodules_initialized e w) =
           Inr (\<not> list_ex (\<lambda>l. startswith (strip l) ''-'') (py_split CHR 0x0A listing)) \<and>
    (list_ex (\<lambda>l. startswith l ''-'') (py_split CHR 0x0A listing) \<longrightarrow>
       fst (git_submodules_initialized e w) = Inr False \<and>
       calls (snd (update_git_submodules e w)) =
         calls w @ [(check_output, ArgList [''git'', ''submodule'', ''status'']),
           (check_call, ArgList [''git'', ''submodule'', ''update'', ''--init'', ''--recursive''])]) \<and>
    (\<not> list_ex (\<lambda>l. startswith (strip l) ''-'') (py_split CHR 0x0A listing) \<longrightarrow>
       fst (git_submodules_initialized e w) = Inr True \<and>
       calls (snd (update_git_submodules e w)) =
         calls w @ [(check_output, ArgList [''git'', ''submodule'', ''status''])]) \<and>
    (list_ex (\<lambda>l. startswith (strip l) ''-'') (py_split CHR 0x0A listing) \<longrightarrow>
       calls (snd (update_git_submodules e w)) =
         calls w @ [(check_output, ArgList [''git'', ''submodule'', ''status'']),
           (check_call, ArgList [''git'', ''submodule'', ''update'', ''--init'', ''--recursive''])])"
proof -
  let ?marked = "list_ex (\<lambda>l. startswith (strip l) ''-'') (py_split CHR 0x0A listing)"
  let ?w1 = "w\<lparr>stdout := stdout w @ [''git submodule status'', listing],
        calls := calls w @ [(check_output, ArgList [''git'', ''submodule'', ''status''])]\<rparr>"
  have init: "git_submodules_initialized e w = (Inr (\<not> ?marked), ?w1)"
    by (rule git_submodules_initialized_eq [OF assms])
  have stronger: "list_ex (\<lambda>l. startswith l ''-'') (py_split CHR 0x0A listing) \<Longrightarrow> ?marked"
    by (auto simp: list_ex_iff intro: startswith_strip)
  have upd: "?marked \<Longrightarrow> calls (snd (update_git_submodules e w)) =
         calls w @ [(check_output, ArgList [''git'', ''submodule'', ''status'']),
           (check_call, ArgList [''git'', ''submodule'', ''update'', ''--init'', ''--recursive''])]"
  proof -
    assume m: ?marked
    have "update_git_submodules e w =
        (case subprocess e check_call
                (ArgList [''git'', ''submodule'', ''update'', ''--init'', ''--recursive''])
                ''Couldn't initialize git submodules'' None ?w1 of
           (Inl x, w2) \<Rightarrow> (Inl x, w2)
         | (Inr r, w2) \<Rightarrow> (Inr (), w2))"
      using m by (simp add: update_git_submodules_def init)
    moreover have "calls (snd (subprocess e check_call
                (ArgList [''git'', ''submodule'', ''update'', ''--init'', ''--recursive''])
                ''Couldn't initialize git submodules'' None ?w1)) =
        calls ?w1 @ [(check_call,
          ArgList [''git'', ''submodule'', ''update'', ''--init'', ''--recursive''])]"
      by (rule calls_subprocess [OF update_command])
    ultimately show ?thesis
      by (simp split: prod.splits sum.splits)
  qed
  have noupd: "\<not> ?marked \<Longrightarrow> calls (snd (update_git_submodules e w)) =
         calls w @ [(check_output, ArgList [''git'', ''submodule'', ''status''])]"
    by (simp add: update_git_submodules_def init)
  show ?thesis
    using init stronger upd noupd by auto
qed

theorem update_git_submodules_marked_witness:
  "calls (snd (update_git_submodules
      (sample_env (\<lambda>w f a. Returns (Some ('' 5d3f0a1 premake'' @ [CHR 0x0A] @ ''-9c2e7b4 hxcpp'' @ [CHR 0x0A]))))
      sample_world)) =
     [(check_output, ArgList [''git'', ''submodule'', ''status'']),
      (check_call, ArgList [''git'', ''submodule'', ''update'', ''--init'', ''--recursive''])] \<and>
   calls (snd (update_git_submodules
      (sample_env (\<lambda>w f a. Returns (Some ('' 5d3f0a1 premake'' @ [CHR 0x0A] @ '' 9c2e7b4 hxcpp'' @ [CHR 0x0A]))))
      sample_world)) =
     [(check_output, ArgList [''git'', ''submodule'', ''status''])]"
  using
    update_git_submodules_marked
      [of "sample_env (\<lambda>w f a. Returns (Some ('' 5d3f0a1 premake'' @ [CHR 0x0A] @ ''-9c2e7b4 hxcpp'' @ [CHR 0x0A])))"
          sample_world "'' 5d3f0a1 premake'' @ [CHR 0x0A] @ ''-9c2e7b4 hxcpp'' @ [CHR 0x0A]"]
    update_git_submodules_marked
      [of "sample_env (\<lambda>w f a. Returns (Some ('' 5d3f0a1 premake'' @ [CHR 0x0A] @ '' 9c2e7b4 hxcpp'' @ [CHR 0x0A])))"
          sample_world "'' 5d3f0a1 premake'' @ [CHR 0x0A] @ '' 9c2e7b4 hxcpp'' @ [CHR 0x0A]"]
  by (simp add: sample_env_def sample_world_def startswith_def strip_def isspace_def)

text \<open>
  A listing whose only line starts with a space and then \<open>-\<close> has no line starting with
  \<open>-\<close>, and the update call is made.
\<close>

theorem update_git_submodules_counterexample:
  "\<not> list_ex (\<lambda>l. startswith l ''-'') (py_split CHR 0x0A '' -9c2e7b4 hxcpp'') \<and>
   fst (git_submodules_initialized
      (sample_env (\<lambda>w f a. Returns (Some '' -9c2e7b4 hxcpp''))) sample_world) = Inr False \<and>
   calls (snd (update_git_submodules
      (sample_env (\<lambda>w f a. Returns (Some '' -9c2e7b4 hxcpp''))) sample_world)) =
     [(check_output, ArgList [''git'', ''submodule'', ''status'']),
      (check_call, ArgList [''git'', ''submodule'', ''update'', ''--init'', ''--recursive''])]"
proof -
  have ex: "exec (sample_env (\<lambda>w f a. Returns (Some '' -9c2e7b4 hxcpp''))) sample_world
      check_output (ArgList [''git'', ''submodule'', ''status'']) = Returns (Some '' -9c2e7b4 hxcpp'')"
    by (simp add: sample_env_def)
  have init: "git_submodules_initialized
      (sample_env (\<lambda>w f a. Returns (Some '' -9c2e7b4 hxcpp''))) sample_world =
      (Inr False, sample_world\<lparr>stdout := stdout sample_world @ [''git submodule status'', '' -9c2e7b4 hxcpp''],
        calls := calls sample_world @ [(check_output, ArgList [''git'', ''submodule'', ''status''])]\<rparr>)"
    unfolding git_submodules_initialized_eq [OF ex]
    by (simp add: startswith_def strip_def isspace_def)
  have "\<not> list_ex (\<lambda>l. startswith l ''-'') (py_split CHR 0x0A '' -9c2e7b4 hxcpp'')"
    by (simp add: startswith_def)
  moreover have "calls (snd (update_git_submodules
      (sample_env (\<lambda>w f a. Returns (Some '' -9c2e7b4 hxcpp''))) sample_world)) =
     [(check_output, ArgList [''git'', ''submodule'', ''status'']),
      (check_call, ArgList [''git'', ''submodule'', ''update'', ''--init'', ''--recursive''])]"
    unfolding update_git_submodules_def init
    by (simp add: subprocess_eq [OF update_command] sample_env_def sample_world_def)
  ultimately show ?thesis
    using init by simp
qed

subsection \<open>find_hxcpp_includes\<close>

lemma libpath_command:
  "command_and_tool (ArgList [''haxelib'', ''libpath'', ''hxcpp'']) =
     Inr (''haxelib libpath hxcpp'', ''haxelib'')"
  by (simp add: command_and_tool_def)

text \<open>
  C8. Given the locator's output, the include directory is the stripped output joined
  with \<open>include\<close>. When this path does not exist, or has no entries, the error is
  \<open>Bad hxcpp include: <path>\<close>; when it exists and has an entry, exactly this path is
  appended to the hxcpp includes. For an empty output the path is the relative path
  \<open>include\<close>, and it is checked like any other.
\<close>

theorem find_hxcpp_includes_checked:
  assumes "exec e w check_output (ArgList [''haxelib'', ''libpath'', ''hxcpp'']) =
             Returns (Some libpath)"
  shows "(\<not> exists e (truediv (Path (strip libpath)) ''include'') \<or>
          iterdir e (truediv (Path (strip libpath)) ''include'') = Inr [] \<longrightarrow>
            fst (find_hxcpp_includes e self w) =
              Inl (Exception (''Bad hxcpp include: ''
                     @ str (truediv (Path (strip libpath)) ''include'')))) \<and>
         (exists e (truediv (Path (strip libpath)) ''include'') \<and>
          iterdir e (truediv (Path (strip libpath)) ''include'') = Inr (x # xs) \<longrightarrow>
            fst (find_hxcpp_includes e self w) =
              Inr (self\<lparr>hxcpp_includes :=
                     hxcpp_includes self @ [truediv (Path (strip libpath)) ''include'']\<rparr>)) \<and>
         (strip libpath = [] \<longrightarrow>
            truediv (Path (strip libpath)) ''include'' = PosixPath [] [''include''])"
proof -
  have "strip libpath = [] \<Longrightarrow>
      truediv (Path (strip libpath)) ''include'' = PosixPath [] [''include'']"
    by (simp add: truediv_def Path_def splitroot_def joinp_def)
  then show ?thesis
    using assms
    by (simp add: find_hxcpp_includes_def subprocess_eq [OF libpath_command] Let_def)
qed

theorem find_hxcpp_includes_checked_witness:
  "fst (find_hxcpp_includes
     ((sample_env (\<lambda>w f a. Returns (Some (''/usr/lib/haxe/lib/hxcpp/4,2,1/'' @ [CHR 0x0A]))))
        \<lparr>exists := (\<lambda>p. False)\<rparr>) initialize_options sample_world) =
     Inl (Exception ''Bad hxcpp include: /usr/lib/haxe/lib/hxcpp/4,2,1/include'') \<and>
   fst (find_hxcpp_includes
     (sample_env (\<lambda>w f a. Returns (Some (''/usr/lib/haxe/lib/hxcpp/4,2,1/'' @ [CHR 0x0A]))))
        initialize_options sample_world) =
     Inr (initialize_options
       \<lparr>hxcpp_includes := [PosixPath ''/'' [''usr'', ''lib'', ''haxe'', ''lib'', ''hxcpp'', ''4,2,1'', ''include'']]\<rparr>)"
  using
    find_hxcpp_includes_checked
      [where e = "(sample_env (\<lambda>w f a. Returns (Some (''/usr/lib/haxe/lib/hxcpp/4,2,1/'' @ [CHR 0x0A]))))
          \<lparr>exists := (\<lambda>p. False)\<rparr>"
        and w = sample_world and libpath = "''/usr/lib/haxe/lib/hxcpp/4,2,1/'' @ [CHR 0x0A]"
        and self = initialize_options]
    find_hxcpp_includes_checked
      [where e = "sample_env (\<lambda>w f a. Returns (Some (''/usr/lib/haxe/lib/hxcpp/4,2,1/'' @ [CHR 0x0A])))"
        and w = sample_world and libpath = "''/usr/lib/haxe/lib/hxcpp/4,2,1/'' @ [CHR 0x0A]"
        and x = "truediv (PosixPath ''/'' [''usr'', ''lib'', ''haxe'', ''lib'', ''hxcpp'', ''4,2,1'', ''include'']) ''hxcpp.h''"
        and xs = "[]" and self = initialize_options]
  by (simp add: sample_env_def strip_def isspace_def Path_def splitroot_def truediv_def
      joinp_def str_def initialize_options_def)

text \<open>
  The locator returns the empty string and the working directory has a non-empty
  directory \<open>include\<close>: no error is raised, and \<open>include\<close> is appended.
\<close>

theorem find_hxcpp_includes_counterexample:
  "fst (find_hxcpp_includes (sample_env (\<lambda>w f a. Returns (Some []))) initialize_options
          sample_world) =
     Inr (initialize_options\<lparr>hxcpp_includes := [PosixPath [] [''include'']]\<rparr>)"
  by (simp add: find_hxcpp_includes_def subprocess_eq [OF libpath_command] Let_def
      sample_env_def strip_def Path_def splitroot_def truediv_def joinp_def
      initialize_options_def)

subsection \<open>premake\<close>

lemma premake_unfold:
  "premake e self w =
     (case select_action self w of
        Inl x \<Rightarrow> (Inl x, w)
      | Inr action \<Rightarrow>
          (case get_target_path e self w of
             (Inl x, w1) \<Rightarrow> (Inl x, w1)
           | (Inr target, w1) \<Rightarrow>
               subprocess e check_call
                 (ArgStr (''premake5 '' @ action @ includedirs_flag self @ libdirs_flag self
                    @ '' --target='' @ [CHR 0x22] @ target @ [CHR 0x22]))
                 (''premake failed for action: '' @ action) None w1))"
  unfolding premake_def select_action_def includedirs_flag_def libdirs_flag_def Let_def
  by (auto split: sum.splits prod.splits)

lemma calls_get_target_path: "calls (snd (get_target_path e self w)) = calls w"
  by (simp add: get_target_path_def Let_def split: sum.splits option.splits)

lemma premake_calls:
  assumes "select_action self w = Inr action"
    and "get_target_path e self w = (Inr target, w1)"
  shows "calls (snd (premake e self w)) =
           calls w @ [(check_call,
             ArgStr (''premake5 '' @ action @ includedirs_flag self @ libdirs_flag self
               @ '' --target='' @ [CHR 0x22] @ target @ [CHR 0x22]))]"
proof -
  have "calls w1 = calls w"
    using calls_get_target_path [of e self w] assms(2) by simp
  then show ?thesis
    using assms by (simp add: premake_unfold calls_subprocess [OF command_and_tool_str])
qed

text \<open>When the generator exits with a non-zero status, the error names the action.\<close>

lemma premake_failure_names_action:
  assumes "select_action self w = Inr action"
    and "get_target_path e self w = (Inr target, w1)"
    and "exec e w1 check_call
           (ArgStr (''premake5 '' @ action @ includedirs_flag self @ libdirs_flag self
              @ '' --target='' @ [CHR 0x22] @ target @ [CHR 0x22])) = RaisesCalledProcessError"
  shows "fst (premake e self w) = Inl (Exception (''premake failed for action: '' @ action))"
  using assms by (simp add: premake_unfold subprocess_eq [OF command_and_tool_str])

lemma py_join_ends_with_last:
  "xs \<noteq> [] \<Longrightarrow> \<exists>pre. py_join sep xs = pre @ last xs"
proof (induction sep xs rule: py_join.induct)
  case (1 sep)
  then show ?case by simp
next
  case (2 sep x)
  show ?case by simp
next
  case (3 sep x y ys)
  then obtain pre where "py_join sep (y # ys) = pre @ last (y # ys)" by auto
  then have "py_join sep (x # y # ys) = (x @ sep @ pre) @ last (x # y # ys)" by simp
  then show ?case by blast
qed

lemma sample_target_path:
  "fst (get_target_path (sample_env x) (initialize_options\<lparr>build_lib := Some ''build/lib'', windows := b\<rparr>) w) =
     Inr ''/home/user/ConvPhase/build/lib/itaxotools/convphase/convphase.cpython-310-x86_64-linux-gnu.so''"
  by (simp add: get_target_path_def Let_def get_target_filename_def Path_def splitroot_def
      joinp_def joinpath_def truediv_def str_def absolute_def sample_env_def
      initialize_options_def)

text \<open>
  C6. With the flag \<open>windows\<close> set, \<open>premake\<close> launches \<open>premake5 vs2019 ...\<close> when
  \<open>VisualStudioVersion\<close> is \<open>16.0\<close> and \<open>premake5 vs2022 ...\<close> when it is \<open>17.0\<close>, and
  for any other value, or none, it raises \<open>Cannot determine Visual Studio version\<close>
  before doing anything else. With the flag clear it launches \<open>premake5 gmake2 ...\<close>.
  (The launch presupposes that the target path could be computed.)
\<close>

theorem premake_action:
  "(windows self \<and> environ w ''VisualStudioVersion'' = Some ''16.0'' \<and>
      fst (get_target_path e self w) = Inr target \<longrightarrow>
      (\<exists>tail. calls (snd (premake e self w)) =
         calls w @ [(check_call, ArgStr (''premake5 vs2019'' @ tail))])) \<and>
   (windows self \<and> environ w ''VisualStudioVersion'' = Some ''17.0'' \<and>
      fst (get_target_path e self w) = Inr target \<longrightarrow>
      (\<exists>tail. calls (snd (premake e self w)) =
         calls w @ [(check_call, ArgStr (''premake5 vs2022'' @ tail))])) \<and>
   (windows self \<and> environ w ''VisualStudioVersion'' \<noteq> Some ''16.0'' \<and>
      environ w ''VisualStudioVersion'' \<noteq> Some ''17.0'' \<longrightarrow>
      premake e self w = (Inl (Exception ''Cannot determine Visual Studio version''), w)) \<and>
   (\<not> windows self \<and> fst (get_target_path e self w) = Inr target \<longrightarrow>
      (\<exists>tail. calls (snd (premake e self w)) =
         calls w @ [(check_call, ArgStr (''premake5 gmake2'' @ tail))]))"
proof -
  have run: "\<exists>tail. calls (snd (premake e self w)) =
         calls w @ [(check_call, ArgStr (''premake5 '' @ action @ tail))]"
    if sa: "select_action self w = Inr action"
      and tp: "fst (get_target_path e self w) = Inr target"
    for action
  proof -
    obtain w1 where "get_target_path e self w = (Inr target, w1)"
      using tp by (cases "get_target_path e self w") simp
    from premake_calls [OF sa this] show ?thesis by simp
  qed
  have "windows self \<Longrightarrow> environ w ''VisualStudioVersion'' = Some ''16.0'' \<Longrightarrow>
      select_action self w = Inr ''vs2019''"
    by (simp add: select_action_def)
  moreover have "windows self \<Longrightarrow> environ w ''VisualStudioVersion'' = Some ''17.0'' \<Longrightarrow>
      select_action self w = Inr ''vs2022''"
    by (simp add: select_action_def)
  moreover have "\<not> windows self \<Longrightarrow> select_action self w = Inr ''gmake2''"
    by (simp add: select_action_def)
  moreover have "windows self \<Longrightarrow> environ w ''VisualStudioVersion'' \<noteq> Some ''16.0'' \<Longrightarrow>
      environ w ''VisualStudioVersion'' \<noteq> Some ''17.0'' \<Longrightarrow>
      premake e self w = (Inl (Exception ''Cannot determine Visual Studio version''), w)"
    by (simp add: premake_unfold select_action_def)
  ultimately show ?thesis
    using run [of "''vs2019''"] run [of "''vs2022''"] run [of "''gmake2''"] by simp
qed

theorem premake_action_witness:
  "(\<exists>tail. calls (snd (premake (sample_env (\<lambda>w f a. Returns None))
        (initialize_options\<lparr>build_lib := Some ''build/lib'', windows := True\<rparr>)
        (sample_world\<lparr>environ := [''VisualStudioVersion'' \<mapsto> ''16.0'']\<rparr>))) =
      [(check_call, ArgStr (''premake5 vs2019'' @ tail))]) \<and>
   (\<exists>tail. calls (snd (premake (sample_env (\<lambda>w f a. Returns None))
        (initialize_options\<lparr>build_lib := Some ''build/lib'', windows := True\<rparr>)
        (sample_world\<lparr>environ := [''VisualStudioVersion'' \<mapsto> ''17.0'']\<rparr>))) =
      [(check_call, ArgStr (''premake5 vs2022'' @ tail))]) \<and>
   premake (sample_env (\<lambda>w f a. Returns None))
        (initialize_options\<lparr>build_lib := Some ''build/lib'', windows := True\<rparr>)
        (sample_world\<lparr>environ := [''VisualStudioVersion'' \<mapsto> ''15.0'']\<rparr>) =
      (Inl (Exception ''Cannot determine Visual Studio version''),
       sample_world\<lparr>environ := [''VisualStudioVersion'' \<mapsto> ''15.0'']\<rparr>) \<and>
   (\<exists>tail. calls (snd (premake (sample_env (\<lambda>w f a. Returns None))
        (initialize_options\<lparr>build_lib := Some ''build/lib'', windows := False\<rparr>)
        sample_world)) =
      [(check_call, ArgStr (''premake5 gmake2'' @ tail))])"
  using
    premake_action
      [of "initialize_options\<lparr>build_lib := Some ''build/lib'', windows := True\<rparr>"
          "sample_world\<lparr>environ := [''VisualStudioVersion'' \<mapsto> ''16.0'']\<rparr>"
          "sample_env (\<lambda>w f a. Returns None)"
          "''/home/user/ConvPhase/build/lib/itaxotools/convphase/convphase.cpython-310-x86_64-linux-gnu.so''"]
    premake_action
      [of "initialize_options\<lparr>build_lib := Some ''build/lib'', windows := True\<rparr>"
          "sample_world\<lparr>environ := [''VisualStudioVersion'' \<mapsto> ''17.0'']\<rparr>"
          "sample_env (\<lambda>w f a. Returns None)"
          "''/home/user/ConvPhase/build/lib/itaxotools/convphase/convphase.cpython-310-x86_64-linux-gnu.so''"]
    premake_action
      [of "initialize_options\<lparr>build_lib := Some ''build/lib'', windows := True\<rparr>"
          "sample_world\<lparr>environ := [''VisualStudioVersion'' \<mapsto> ''15.0'']\<rparr>"
          "sample_env (\<lambda>w f a. Returns None)"
          "''/home/user/ConvPhase/build/lib/itaxotools/convphase/convphase.cpython-310-x86_64-linux-gnu.so''"]
    premake_action
      [of "initialize_options\<lparr>build_lib := Some ''build/lib'', windows := False\<rparr>"
          sample_world
          "sample_env (\<lambda>w f a. Returns None)"
          "''/home/user/ConvPhase/build/lib/itaxotools/convphase/convphase.cpython-310-x86_64-linux-gnu.so''"]
  by (simp add: sample_target_path sample_world_def)

text \<open>
  C5. When the generator is launched and there are include paths, its command is
  \<open>premake5 <action> --includedirs="<paths>"...\<close> where \<open><paths>\<close> are the Python include
  paths followed by the hxcpp include paths, joined with \<open>;\<close>; the joined string ends with
  the last path, so no separator follows it.
\<close>

theorem premake_includedirs:
  assumes "premake e self w = (r, w')" and "calls w' \<noteq> calls w"
    and "python_includes self @ hxcpp_includes self \<noteq> []"
  shows "(\<exists>action tail.
           action \<in> {''vs2019'', ''vs2022'', ''gmake2''} \<and>
           calls w' = calls w @ [(check_call,
             ArgStr (''premake5 '' @ action @ '' --includedirs='' @ [CHR 0x22]
               @ py_join '';'' (map str (python_includes self) @ map str (hxcpp_includes self))
               @ [CHR 0x22] @ tail))]) \<and>
         (\<exists>pre. py_join '';'' (map str (python_includes self) @ map str (hxcpp_includes self)) =
            pre @ str (last (python_includes self @ hxcpp_includes self)))"
proof -
  obtain action where act: "select_action self w = Inr action"
    using assms(1,2) by (cases "select_action self w") (auto simp: premake_unfold)
  obtain target w1 where tgt: "get_target_path e self w = (Inr target, w1)"
  proof (cases "get_target_path e self w")
    case (Pair x w1)
    then show ?thesis
      using assms(1,2) act calls_get_target_path [of e self w] that
      by (cases x) (auto simp: premake_unfold)
  qed
  have "action \<in> {''vs2019'', ''vs2022'', ''gmake2''}"
    using act by (auto simp: select_action_def Let_def split: if_splits)
  moreover have "calls w' = calls w @ [(check_call,
             ArgStr (''premake5 '' @ action @ '' --includedirs='' @ [CHR 0x22]
               @ py_join '';'' (map str (python_includes self) @ map str (hxcpp_includes self))
               @ [CHR 0x22] @ (libdirs_flag self
               @ '' --target='' @ [CHR 0x22] @ target @ [CHR 0x22])))]"
    using premake_calls [OF act tgt] assms(1,3) by (simp add: includedirs_flag_def)
  moreover have "\<exists>pre. py_join '';'' (map str (python_includes self) @ map str (hxcpp_includes self)) =
            pre @ str (last (python_includes self @ hxcpp_includes self))"
  proof -
    have "last (map str (python_includes self @ hxcpp_includes self)) =
        str (last (python_includes self @ hxcpp_includes self))"
      using assms(3) by (rule last_map)
    then show ?thesis
      using py_join_ends_with_last
        [of "map str (python_includes self @ hxcpp_includes self)" "'';''"] assms(3)
      by (simp del: last_append)
  qed
  ultimately show ?thesis by blast
qed

theorem premake_includedirs_witness:
  "calls (snd (premake (sample_env (\<lambda>w f a. Returns None))
      (initialize_options
         \<lparr>build_lib := Some ''build/lib'', windows := False,
           python_includes := [Path ''/usr/include/python3.10''],
           hxcpp_includes := [Path ''/usr/lib/haxe/lib/hxcpp/4,2,1/include'']\<rparr>)
      sample_world)) =
     [(check_call, ArgStr (''premake5 gmake2 --includedirs='' @ [CHR 0x22]
        @ ''/usr/include/python3.10;/usr/lib/haxe/lib/hxcpp/4,2,1/include'' @ [CHR 0x22]
        @ '' --target='' @ [CHR 0x22]
        @ ''/home/user/ConvPhase/build/lib/itaxotools/convphase/convphase.cpython-310-x86_64-linux-gnu.so''
        @ [CHR 0x22]))]"
proof -
  let ?e = "sample_env (\<lambda>w f a. Returns None)"
  let ?self = "initialize_options
         \<lparr>build_lib := Some ''build/lib'', windows := False,
           python_includes := [Path ''/usr/include/python3.10''],
           hxcpp_includes := [Path ''/usr/lib/haxe/lib/hxcpp/4,2,1/include'']\<rparr>"
  have tgt: "fst (get_target_path ?e ?self sample_world) =
     Inr ''/home/user/ConvPhase/build/lib/itaxotools/convphase/convphase.cpython-310-x86_64-linux-gnu.so''"
    by (simp add: get_target_path_def Let_def get_target_filename_def Path_def splitroot_def
      joinp_def joinpath_def truediv_def str_def absolute_def sample_env_def
      initialize_options_def)
  then obtain w1 where w1: "get_target_path ?e ?self sample_world =
     (Inr ''/home/user/ConvPhase/build/lib/itaxotools/convphase/convphase.cpython-310-x86_64-linux-gnu.so'', w1)"
    by (cases "get_target_path ?e ?self sample_world") simp
  have act: "select_action ?self sample_world = Inr ''gmake2''"
    by (simp add: select_action_def)
  have flags: "includedirs_flag ?self = '' --includedirs='' @ [CHR 0x22]
        @ ''/usr/include/python3.10;/usr/lib/haxe/lib/hxcpp/4,2,1/include'' @ [CHR 0x22]"
    "libdirs_flag ?self = []"
    by (simp_all add: includedirs_flag_def libdirs_flag_def Path_def splitroot_def str_def
        initialize_options_def)
  have run: "calls (snd (premake ?e ?self sample_world)) =
     [(check_call, ArgStr (''premake5 gmake2 --includedirs='' @ [CHR 0x22]
        @ ''/usr/include/python3.10;/usr/lib/haxe/lib/hxcpp/4,2,1/include'' @ [CHR 0x22]
        @ '' --target='' @ [CHR 0x22]
        @ ''/home/user/ConvPhase/build/lib/itaxotools/convphase/convphase.cpython-310-x86_64-linux-gnu.so''
        @ [CHR 0x22]))]"
    using premake_calls [OF act w1] by (simp add: flags sample_world_def)
  have ne: "calls (snd (premake ?e ?self sample_world)) \<noteq> calls sample_world"
    unfolding run by (simp add: sample_world_def)
  have inc: "python_includes ?self @ hxcpp_includes ?self \<noteq> []"
    by simp
  from premake_includedirs [OF prod.collapse [symmetric] ne inc] run show ?thesis
    by simp
qed

end
